theory Spec2Isabelle
  imports Main "HOL-Library.Sublist" "HOL-Library.AList"
begin

section \<open>JavaScript values\<close>

text \<open>
  The components pass around values typed \<^verbatim>\<open>any\<close>: parsed JSON bodies, the chat
  widget's message envelope, and the objects pushed onto the transcript arrays. They are
  modelled by one datatype of JavaScript values. An object is the list of its own
  properties in enumeration order (keys distinct); a number is an integer of magnitude at
  most 2 to the power 53, which JavaScript holds exactly and prints in plain decimal
  digits (fractions and larger numbers have no value here); a string is the list of its
  code units, those below 256.
\<close>

datatype jsval =
    JUndefined
  | JNull
  | JBool bool
  | JNum int
  | JStr string
  | JArr "jsval list"
  | JObj "(string \<times> jsval) list"

text \<open>The only exception the interceptors can raise: reading a property of
  \<^verbatim>\<open>undefined\<close> or \<^verbatim>\<open>null\<close>.\<close>

datatype js_error = TypeError

text \<open>JavaScript's ToBoolean, as used by \<^verbatim>\<open>!x\<close> and \<^verbatim>\<open>x && y\<close>.\<close>

fun truthy :: "jsval \<Rightarrow> bool" where
  "truthy JUndefined = False"
| "truthy JNull = False"
| "truthy (JBool b) = b"
| "truthy (JNum n) = (n \<noteq> 0)"
| "truthy (JStr s) = (s \<noteq> [])"
| "truthy (JArr xs) = True"
| "truthy (JObj kvs) = True"

text \<open>
  Property read \<^verbatim>\<open>v.k\<close> for a name \<open>k\<close> that no built-in prototype defines (the
  program reads \<^verbatim>\<open>messages\<close>, \<^verbatim>\<open>text\<close>, \<^verbatim>\<open>answer\<close>, \<^verbatim>\<open>result\<close> and
  \<^verbatim>\<open>raw\<close>): an own property of an object, \<^verbatim>\<open>undefined\<close> on every other
  non-nullish value, a TypeError on \<^verbatim>\<open>undefined\<close> and \<^verbatim>\<open>null\<close>.
\<close>

fun get_prop :: "jsval \<Rightarrow> string \<Rightarrow> js_error + jsval" where
  "get_prop JUndefined k = Inl TypeError"
| "get_prop JNull k = Inl TypeError"
| "get_prop (JObj kvs) k = Inr (case map_of kvs k of None \<Rightarrow> JUndefined | Some v \<Rightarrow> v)"
| "get_prop v k = Inr JUndefined"

text \<open>The digit characters (lower-case beyond nine), and a natural number in decimal as
  JavaScript prints an integer.\<close>

definition digit :: "nat \<Rightarrow> char" where
  "digit d = ''0123456789abcdef'' ! (d mod 16)"

function nat_to_string :: "nat \<Rightarrow> string" where
  "nat_to_string n = (if n < 10 then [digit n] else nat_to_string (n div 10) @ [digit (n mod 10)])"
  by pat_completeness auto
termination
  by (relation "measure id") auto

declare nat_to_string.simps [simp del]

definition int_to_string :: "int \<Rightarrow> string" where
  "int_to_string i = (if i < 0 then CHR ''-'' # nat_to_string (nat (- i)) else nat_to_string (nat i))"

text \<open>Indexed read \<^verbatim>\<open>v[i]\<close> for a natural number \<open>i\<close>.\<close>

fun get_index :: "jsval \<Rightarrow> nat \<Rightarrow> js_error + jsval" where
  "get_index JUndefined i = Inl TypeError"
| "get_index JNull i = Inl TypeError"
| "get_index (JArr xs) i = Inr (if i < length xs then xs ! i else JUndefined)"
| "get_index (JStr s) i = Inr (if i < length s then JStr [s ! i] else JUndefined)"
| "get_index (JObj kvs) i =
     Inr (case map_of kvs (nat_to_string i) of None \<Rightarrow> JUndefined | Some v \<Rightarrow> v)"
| "get_index v i = Inr JUndefined"

text \<open>\<^verbatim>\<open>Array.prototype.join\<close> on strings.\<close>

fun join :: "string \<Rightarrow> string list \<Rightarrow> string" where
  "join sep [] = []"
| "join sep [s] = s"
| "join sep (s # t # ss) = s @ sep @ join sep (t # ss)"

text \<open>JavaScript's ToString, as a template literal's \<^verbatim>\<open>${...}\<close> applies it. An
  array joins its elements with commas, printing \<^verbatim>\<open>undefined\<close> and \<^verbatim>\<open>null\<close>
  elements as the empty string.\<close>

fun ToString :: "jsval \<Rightarrow> string" where
  "ToString JUndefined = ''undefined''"
| "ToString JNull = ''null''"
| "ToString (JBool b) = (if b then ''true'' else ''false'')"
| "ToString (JNum n) = int_to_string n"
| "ToString (JStr s) = s"
| "ToString (JArr xs) =
     join '','' (map (\<lambda>v. if v = JUndefined \<or> v = JNull then [] else ToString v) xs)"
| "ToString (JObj kvs) = ''[object Object]''"

text \<open>
  \<^verbatim>\<open>Array.prototype.slice(start)\<close> with no end: a negative start counts from the
  end and is clamped at 0, a non-negative one is clamped at the length; the result is a
  fresh array of the elements from there to the end.
\<close>

definition js_slice :: "int \<Rightarrow> 'a list \<Rightarrow> 'a list" where
  "js_slice start xs =
     (let len = int (length xs);
          k = (if start < 0 then max (len + start) 0 else min start len)
      in drop (nat k) xs)"

section \<open>The chat screens\<close>

text \<open>
  The module-scoped variables of a chat module: the transcript \<^verbatim>\<open>currentChatDetail\<close>,
  the role/content history \<^verbatim>\<open>chatHistor_LLM\<close> and the export record
  \<^verbatim>\<open>newRecord\<close>. The arrays hold objects; \<^verbatim>\<open>push\<close> appends at the end.
\<close>

record chat_state =
  currentChatDetail :: "jsval list"
  chatHistor_LLM :: "jsval list"
  newRecord :: "(string \<times> jsval) list"

definition init_chat :: chat_state where
  "init_chat = \<lparr>currentChatDetail = [], chatHistor_LLM = [], newRecord = []\<rparr>"

text \<open>The widget's request, \<^verbatim>\<open>{ body: any }\<close>.\<close>

record request =
  body :: jsval

text \<open>\<^verbatim>\<open>request.body["messages"][0].text\<close>, read left to right.\<close>

definition message_text :: "jsval \<Rightarrow> js_error + jsval" where
  "message_text b =
     (case get_prop b ''messages'' of
        Inl e \<Rightarrow> Inl e
      | Inr ms \<Rightarrow>
          (case get_index ms 0 of
             Inl e \<Rightarrow> Inl e
           | Inr m \<Rightarrow> get_prop m ''text''))"

subsection \<open>ChatBot.tsx: the /api/chat variant\<close>

text \<open>
  An interceptor returns its result, or the exception it raised, together with the module
  state it leaves behind. \<^verbatim>\<open>newRecord = {}\<close> runs before the first read of the
  message, so it happens even when that read raises; every later read of the same
  expression gives the same value.
\<close>

definition requestInterceptor :: "chat_state \<Rightarrow> request \<Rightarrow> (js_error + request) \<times> chat_state" where
  "requestInterceptor st request =
     (let st1 = st\<lparr>newRecord := []\<rparr> in
      case message_text (body request) of
        Inl e \<Rightarrow> (Inl e, st1)
      | Inr t \<Rightarrow>
          (let st2 = st1\<lparr>newRecord := AList.update ''questions'' t (newRecord st1)\<rparr>;
               currentMessages = JObj [(''role'', JStr ''user''), (''html'', t)];
               st3 = st2\<lparr>currentChatDetail := currentChatDetail st2 @ [currentMessages]\<rparr>;
               currentMessages_LLM = JObj [(''role'', JStr ''user''), (''content'', t)];
               st4 = st3\<lparr>chatHistor_LLM := chatHistor_LLM st3 @ [currentMessages_LLM]\<rparr>;
               lastFiveMessages = js_slice (- 10) (chatHistor_LLM st4)
           in (Inr (request\<lparr>body := JObj [(''content'', t), (''history'', JArr lastFiveMessages)]\<rparr>),
               st4)))"

text \<open>\<open>now\<close> is the value of \<^verbatim>\<open>new Date().toString()\<close> at the call.\<close>

definition responseInterceptor :: "string \<Rightarrow> chat_state \<Rightarrow> jsval \<Rightarrow> (js_error + jsval) \<times> chat_state" where
  "responseInterceptor now st response =
     (case get_prop response ''text'' of
        Inl e \<Rightarrow> (Inl e, st)
      | Inr text \<Rightarrow>
          (case get_prop response ''answer'' of
             Inl e \<Rightarrow> (Inl e, st)
           | Inr answer \<Rightarrow>
               (let formattedResponse = JObj [(''html'', text)];
                    currentMessages = JObj [(''role'', JStr ''ai''), (''html'', text)];
                    st1 = st\<lparr>currentChatDetail := currentChatDetail st @ [currentMessages]\<rparr>;
                    currentMessages_LLM = JObj [(''role'', JStr ''assistant''), (''content'', answer)];
                    st2 = st1\<lparr>chatHistor_LLM := chatHistor_LLM st1 @ [currentMessages_LLM]\<rparr>;
                    st3 = st2\<lparr>newRecord := AList.update ''Answer'' answer (newRecord st2)\<rparr>;
                    st4 = st3\<lparr>newRecord := AList.update ''dateAndTime'' (JStr now) (newRecord st3)\<rparr>
                in (Inr formattedResponse, st4))))"

subsection \<open>ChatBot_v1.tsx, first component: the formatResponse variant\<close>

definition requestInterceptor_v1 :: "chat_state \<Rightarrow> request \<Rightarrow> (js_error + request) \<times> chat_state" where
  "requestInterceptor_v1 st request =
     (let st1 = st\<lparr>newRecord := []\<rparr> in
      case message_text (body request) of
        Inl e \<Rightarrow> (Inl e, st1)
      | Inr t \<Rightarrow>
          (let st2 = st1\<lparr>newRecord := AList.update ''questions'' t (newRecord st1)\<rparr>;
               currentMessages = JObj [(''role'', JStr ''user''), (''html'', t)];
               st3 = st2\<lparr>currentChatDetail := currentChatDetail st2 @ [currentMessages]\<rparr>
           in (Inr (request\<lparr>body := JObj [(''question'', t)]\<rparr>), st3)))"

text \<open>
  The template literal opens with a line break and twelve spaces and closes with a line
  break and eight spaces, around the \<^verbatim>\<open>div\<close> element.
\<close>

definition formatResponse :: "jsval \<Rightarrow> js_error + string" where
  "formatResponse response =
     (case get_prop response ''result'' of
        Inl e \<Rightarrow> Inl e
      | Inr result \<Rightarrow>
          if \<not> truthy result then Inr ''No result received from the server.''
          else
            (case get_prop result ''raw'' of
               Inl e \<Rightarrow> Inl e
             | Inr reportSections \<Rightarrow>
                 Inr ([CHR 0x0A] @ ''            <div>'' @ ToString reportSections @ ''</div>''
                      @ [CHR 0x0A] @ ''        '')))"

definition responseInterceptor_v1 :: "string \<Rightarrow> chat_state \<Rightarrow> jsval \<Rightarrow> (js_error + jsval) \<times> chat_state" where
  "responseInterceptor_v1 now st response =
     (case formatResponse response of
        Inl e \<Rightarrow> (Inl e, st)
      | Inr formattedResponse \<Rightarrow>
          (case get_prop response ''answer'' of
             Inl e \<Rightarrow> (Inl e, st)
           | Inr answer \<Rightarrow>
               (let currentMessages = JObj [(''role'', JStr ''ai''), (''html'', JStr formattedResponse)];
                    st1 = st\<lparr>currentChatDetail := currentChatDetail st @ [currentMessages]\<rparr>;
                    st2 = st1\<lparr>newRecord := AList.update ''Answer'' answer (newRecord st1)\<rparr>;
                    st3 = st2\<lparr>newRecord := AList.update ''dateAndTime'' (JStr now) (newRecord st2)\<rparr>
                in (Inr (JObj [(''html'', JStr formattedResponse)]), st3))))"

subsection \<open>ChatBot_v1.tsx, second component: history kept, question sent\<close>

text \<open>This request interceptor computes the window \<^verbatim>\<open>lastFiveMessages\<close> and does
  not use it; its response interceptor repeats the one of the /api/chat variant.\<close>

definition requestInterceptor_v1h :: "chat_state \<Rightarrow> request \<Rightarrow> (js_error + request) \<times> chat_state" where
  "requestInterceptor_v1h st request =
     (let st1 = st\<lparr>newRecord := []\<rparr> in
      case message_text (body request) of
        Inl e \<Rightarrow> (Inl e, st1)
      | Inr t \<Rightarrow>
          (let st2 = st1\<lparr>newRecord := AList.update ''questions'' t (newRecord st1)\<rparr>;
               currentMessages = JObj [(''role'', JStr ''user''), (''html'', t)];
               st3 = st2\<lparr>currentChatDetail := currentChatDetail st2 @ [currentMessages]\<rparr>;
               currentMessages_LLM = JObj [(''role'', JStr ''user''), (''content'', t)];
               st4 = st3\<lparr>chatHistor_LLM := chatHistor_LLM st3 @ [currentMessages_LLM]\<rparr>;
               lastFiveMessages = js_slice (- 10) (chatHistor_LLM st4)
           in (Inr (request\<lparr>body := JObj [(''question'', t)]\<rparr>), st4)))"

definition responseInterceptor_v1h :: "string \<Rightarrow> chat_state \<Rightarrow> jsval \<Rightarrow> (js_error + jsval) \<times> chat_state" where
  "responseInterceptor_v1h now st response =
     (case get_prop response ''text'' of
        Inl e \<Rightarrow> (Inl e, st)
      | Inr text \<Rightarrow>
          (case get_prop response ''answer'' of
             Inl e \<Rightarrow> (Inl e, st)
           | Inr answer \<Rightarrow>
               (let formattedResponse = JObj [(''html'', text)];
                    currentMessages = JObj [(''role'', JStr ''ai''), (''html'', text)];
                    st1 = st\<lparr>currentChatDetail := currentChatDetail st @ [currentMessages]\<rparr>;
                    currentMessages_LLM = JObj [(''role'', JStr ''assistant''), (''content'', answer)];
                    st2 = st1\<lparr>chatHistor_LLM := chatHistor_LLM st1 @ [currentMessages_LLM]\<rparr>;
                    st3 = st2\<lparr>newRecord := AList.update ''Answer'' answer (newRecord st2)\<rparr>;
                    st4 = st3\<lparr>newRecord := AList.update ''dateAndTime'' (JStr now) (newRecord st3)\<rparr>
                in (Inr formattedResponse, st4))))"

subsection \<open>A page session\<close>

text \<open>
  During a page session the widget calls the two interceptors of the mounted module, any
  number of times; a session is the list of these calls, and each call starts from the
  module state the previous one left.
\<close>

datatype call = Request request | Response string jsval

definition ChatBot_call :: "chat_state \<Rightarrow> call \<Rightarrow> chat_state" where
  "ChatBot_call st c =
     (case c of
        Request r \<Rightarrow> snd (requestInterceptor st r)
      | Response now v \<Rightarrow> snd (responseInterceptor now st v))"

definition ChatBot_v1_call :: "chat_state \<Rightarrow> call \<Rightarrow> chat_state" where
  "ChatBot_v1_call st c =
     (case c of
        Request r \<Rightarrow> snd (requestInterceptor_v1 st r)
      | Response now v \<Rightarrow> snd (responseInterceptor_v1 now st v))"

definition ChatBot_v1h_call :: "chat_state \<Rightarrow> call \<Rightarrow> chat_state" where
  "ChatBot_v1h_call st c =
     (case c of
        Request r \<Rightarrow> snd (requestInterceptor_v1h st r)
      | Response now v \<Rightarrow> snd (responseInterceptor_v1h now st v))"

section \<open>JSON.stringify\<close>

text \<open>
  QuoteJSONString of the language standard: the two-character escapes for backspace, tab,
  line feed, form feed, carriage return, the double quote and the backslash; a
  \<^verbatim>\<open>\u00XX\<close> escape with lower-case hexadecimal digits for every other code unit
  below 0x20; every other code unit as it is.
\<close>

definition quote_char :: "char \<Rightarrow> string" where
  "quote_char c =
     (if c = CHR 0x08 then [CHR 0x5C, CHR ''b'']
      else if c = CHR 0x09 then [CHR 0x5C, CHR ''t'']
      else if c = CHR 0x0A then [CHR 0x5C, CHR ''n'']
      else if c = CHR 0x0C then [CHR 0x5C, CHR ''f'']
      else if c = CHR 0x0D then [CHR 0x5C, CHR ''r'']
      else if c = CHR 0x22 then [CHR 0x5C, CHR 0x22]
      else if c = CHR 0x5C then [CHR 0x5C, CHR 0x5C]
      else if (of_char c :: nat) < 32 then
        [CHR 0x5C, CHR ''u'', CHR ''0'', CHR ''0'',
         digit ((of_char c :: nat) div 16), digit ((of_char c :: nat) mod 16)]
      else [c])"

definition QuoteJSONString :: "string \<Rightarrow> string" where
  "QuoteJSONString s = CHR 0x22 # concat (map quote_char s) @ [CHR 0x22]"

text \<open>
  SerializeJSONProperty with no replacer: \<open>gap\<close> is the indentation unit and \<open>indent\<close>
  the current indentation. \<^verbatim>\<open>undefined\<close> has no serialisation (\<open>None\<close>); as an
  array element it is printed \<^verbatim>\<open>null\<close>, as a property value the property is left
  out.
\<close>

fun SerializeJSON :: "string \<Rightarrow> string \<Rightarrow> jsval \<Rightarrow> string option" where
  "SerializeJSON gap indent JUndefined = None"
| "SerializeJSON gap indent JNull = Some ''null''"
| "SerializeJSON gap indent (JBool b) = Some (if b then ''true'' else ''false'')"
| "SerializeJSON gap indent (JNum n) = Some (int_to_string n)"
| "SerializeJSON gap indent (JStr s) = Some (QuoteJSONString s)"
| "SerializeJSON gap indent (JArr xs) =
     (let stepback = indent;
          indent' = indent @ gap;
          partial = map (\<lambda>v. case SerializeJSON gap indent' v of
                                None \<Rightarrow> ''null'' | Some str \<Rightarrow> str) xs
      in Some
           (if partial = [] then ''[]''
            else if gap = [] then ''['' @ join '','' partial @ '']''
            else ''['' @ [CHR 0x0A] @ indent' @ join ('','' @ [CHR 0x0A] @ indent') partial
                 @ [CHR 0x0A] @ stepback @ '']''))"
| "SerializeJSON gap indent (JObj kvs) =
     (let stepback = indent;
          indent' = indent @ gap;
          partial = concat (map (\<lambda>(k, v). case SerializeJSON gap indent' v of
                                None \<Rightarrow> []
                              | Some str \<Rightarrow>
                                  [QuoteJSONString k @ '':'' @ (if gap = [] then [] else '' '') @ str])
                            kvs)
      in Some
           (if partial = [] then ''{}''
            else if gap = [] then ''{'' @ join '','' partial @ ''}''
            else ''{'' @ [CHR 0x0A] @ indent' @ join ('','' @ [CHR 0x0A] @ indent') partial
                 @ [CHR 0x0A] @ stepback @ ''}''))"

text \<open>\<^verbatim>\<open>JSON.stringify(value, null, space)\<close> for a number \<open>space\<close> (at most ten
  spaces of indentation); \<^verbatim>\<open>JSON.stringify(value)\<close> is the case \<open>space = 0\<close>.\<close>

definition JSON_stringify :: "nat \<Rightarrow> jsval \<Rightarrow> string option" where
  "JSON_stringify space v = SerializeJSON (replicate (min space 10) CHR '' '') [] v"

section \<open>The form screen\<close>

text \<open>The four pieces of component state; \<^verbatim>\<open>null\<close> is \<open>JNull\<close> for the result and
  \<open>None\<close> for the error.\<close>

record app_state =
  question :: string
  analysisResult :: jsval
  loading :: bool
  error :: "string option"

definition init_app :: app_state where
  "init_app = \<lparr>question = [], analysisResult = JNull, loading = False, error = None\<rparr>"

text \<open>
  What \<^verbatim>\<open>catch (err)\<close> can receive: an instance of \<^verbatim>\<open>Error\<close> with its message
  (the rejection of \<^verbatim>\<open>fetch\<close> or of \<^verbatim>\<open>response.json()\<close>, or the error thrown on
  a status that is not ok), or any other value.
\<close>

datatype thrown = ErrorObj string | OtherThrown

text \<open>What an awaited promise does: it never settles, it rejects, or it fulfils.\<close>

datatype 'a promise = Pending | Rejected thrown | Fulfilled 'a

record response =
  status :: nat
  statusText :: string
  json :: "jsval promise"

text \<open>\<^verbatim>\<open>Response.ok\<close>: the status is in the range 200 to 299.\<close>

definition ok :: "response \<Rightarrow> bool" where
  "ok r = (200 \<le> status r \<and> status r \<le> 299)"

record fetch_init =
  http_method :: string
  headers :: "(string \<times> string) list"
  init_body :: "string option"

text \<open>What the handler does to the outside, in order: the event, the state setters and
  the network call.\<close>

datatype effect =
    PreventDefault
  | SetLoading bool
  | SetError "string option"
  | SetAnalysisResult jsval
  | Fetch string fetch_init

definition catch_block :: "thrown \<Rightarrow> effect list" where
  "catch_block err =
     [SetError (Some (case err of ErrorObj message \<Rightarrow> message
                                | OtherThrown \<Rightarrow> ''Something went wrong''))]"

definition finally_block :: "effect list" where
  "finally_block = [SetLoading False]"

text \<open>
  \<^verbatim>\<open>handleSubmit\<close> of the render whose state is \<open>st\<close>, given what the network does:
  the effects up to the first \<^verbatim>\<open>await\<close> that never settles, or up to the end of
  \<^verbatim>\<open>finally\<close>.
\<close>

definition handleSubmit :: "app_state \<Rightarrow> response promise \<Rightarrow> effect list" where
  "handleSubmit st outcome =
     [PreventDefault, SetLoading True, SetError None,
      Fetch ''http://localhost:8000/timesheetanalyze''
        \<lparr>http_method = ''POST'',
         headers = [(''Content-Type'', ''application/json'')],
         init_body = JSON_stringify 0 (JObj [(''question'', JStr (question st))])\<rparr>]
     @ (case outcome of
          Pending \<Rightarrow> []
        | Rejected err \<Rightarrow> catch_block err @ finally_block
        | Fulfilled response \<Rightarrow>
            if \<not> ok response then
              catch_block (ErrorObj (''Error: '' @ nat_to_string (status response) @ '' ''
                                     @ statusText response))
              @ finally_block
            else
              (case json response of
                 Pending \<Rightarrow> []
               | Rejected err \<Rightarrow> catch_block err @ finally_block
               | Fulfilled data \<Rightarrow> [SetAnalysisResult data] @ finally_block))"

text \<open>The handler runs to its end when every promise it awaits settles.\<close>

definition settled :: "response promise \<Rightarrow> bool" where
  "settled outcome =
     (case outcome of
        Pending \<Rightarrow> False
      | Rejected err \<Rightarrow> True
      | Fulfilled response \<Rightarrow> (if ok response then json response \<noteq> Pending else True))"

fun apply_effect :: "app_state \<Rightarrow> effect \<Rightarrow> app_state" where
  "apply_effect st PreventDefault = st"
| "apply_effect st (SetLoading b) = st\<lparr>loading := b\<rparr>"
| "apply_effect st (SetError e) = st\<lparr>error := e\<rparr>"
| "apply_effect st (SetAnalysisResult d) = st\<lparr>analysisResult := d\<rparr>"
| "apply_effect st (Fetch url init) = st"

text \<open>The component state after each effect of a trace, and after the whole trace.\<close>

fun states_after :: "app_state \<Rightarrow> effect list \<Rightarrow> app_state list" where
  "states_after st [] = []"
| "states_after st (e # es) = apply_effect st e # states_after (apply_effect st e) es"

definition run :: "app_state \<Rightarrow> effect list \<Rightarrow> app_state" where
  "run st es = foldl apply_effect st es"

fun is_Fetch :: "effect \<Rightarrow> bool" where
  "is_Fetch (Fetch url init) = True"
| "is_Fetch e = False"

fun is_SetLoading :: "effect \<Rightarrow> bool" where
  "is_SetLoading (SetLoading b) = True"
| "is_SetLoading e = False"

text \<open>
  What the component renders. \<^verbatim>\<open>{x && <el/>}\<close> renders the element when \<open>x\<close> is
  truthy; a falsy \<open>x\<close> is rendered itself, which shows nothing except for the number 0.
  The \<^verbatim>\<open>pre\<close> element holds the pretty-printed \<^verbatim>\<open>result\<close> property, or nothing
  when JSON.stringify returns \<^verbatim>\<open>undefined\<close>.
\<close>

datatype result_view = NoResult | FalsyText string | ResultBlock "string option"

record view =
  input_value :: string
  input_required :: bool
  button_disabled :: bool
  button_label :: string
  error_paragraph :: "string option"
  result_area :: result_view

definition App_view :: "app_state \<Rightarrow> view" where
  "App_view st =
     \<lparr>input_value = question st,
      input_required = True,
      button_disabled = loading st,
      button_label = (if loading st then ''Analyzing...'' else ''Analyze''),
      error_paragraph = (case error st of
                           None \<Rightarrow> None
                         | Some e \<Rightarrow> if e = [] then None else Some e),
      result_area =
        (if truthy (analysisResult st) then
           (case get_prop (analysisResult st) ''result'' of
              Inl e \<Rightarrow> NoResult
            | Inr r \<Rightarrow> ResultBlock (JSON_stringify 2 r))
         else
           (case analysisResult st of
              JNum n \<Rightarrow> FalsyText (int_to_string n)
            | _ \<Rightarrow> NoResult))\<rparr>"

subsection \<open>The page as a run of events\<close>

text \<open>
  The browser starts a submission of the form, and with it a run of \<^verbatim>\<open>handleSubmit\<close>,
  only when the form can be submitted: its submit button is not disabled (neither a click
  on a disabled button nor the Enter key in the input submits the form then) and the
  \<^verbatim>\<open>required\<close> input is not empty.
\<close>

definition submittable :: "view \<Rightarrow> bool" where
  "submittable v = (\<not> button_disabled v \<and> \<not> (input_required v \<and> input_value v = []))"

text \<open>
  The page: the component state, the runs of \<^verbatim>\<open>handleSubmit\<close> that are waiting for
  the network (each with the render state it closed over), and every effect performed so
  far. A run that has started has performed its effects up to the first \<^verbatim>\<open>await\<close>;
  when the promises it awaits have settled it performs the rest.
\<close>

record page =
  component :: app_state
  in_flight :: "app_state list"
  performed :: "effect list"

definition init_page :: page where
  "init_page = \<lparr>component = init_app, in_flight = [], performed = []\<rparr>"

text \<open>What can happen on the page: the user edits the input (\<^verbatim>\<open>onChange\<close>), the user
  tries to submit the form, or the network settles for the waiting run of a given index.\<close>

datatype event = Type string | Submit | Settle nat "response promise"

fun page_step :: "page \<Rightarrow> event \<Rightarrow> page" where
  "page_step p (Type s) = p\<lparr>component := (component p)\<lparr>question := s\<rparr>\<rparr>"
| "page_step p Submit =
     (if submittable (App_view (component p)) then
        (let es = handleSubmit (component p) Pending
         in p\<lparr>component := run (component p) es,
              in_flight := in_flight p @ [component p],
              performed := performed p @ es\<rparr>)
      else p)"
| "page_step p (Settle i outcome) =
     (if i < length (in_flight p) \<and> settled outcome then
        (let st = in_flight p ! i;
             es = drop (length (handleSubmit st Pending)) (handleSubmit st outcome)
         in p\<lparr>component := run (component p) es,
              in_flight := take i (in_flight p) @ drop (Suc i) (in_flight p),
              performed := performed p @ es\<rparr>)
      else p)"

text \<open>The loading flag is set exactly when a run is waiting, and at most one run is.\<close>

definition page_inv :: "page \<Rightarrow> bool" where
  "page_inv p = (loading (component p) = (in_flight p \<noteq> []) \<and> length (in_flight p) \<le> 1)"

section \<open>Properties\<close>

text \<open>Both module arrays of \<open>st'\<close> begin with those of \<open>st\<close>: every entry of \<open>st\<close> is
  still there, unchanged and at the same index.\<close>

definition appended_only :: "chat_state \<Rightarrow> chat_state \<Rightarrow> bool" where
  "appended_only st st' =
     (prefix (currentChatDetail st) (currentChatDetail st')
      \<and> prefix (chatHistor_LLM st) (chatHistor_LLM st'))"

subsection \<open>The history window\<close>

lemma js_slice_neg:
  assumes "0 < n"
  shows "js_slice (- int n) xs = drop (length xs - n) xs"
proof -
  have "nat (int (length xs) - int n) = length xs - n" by simp
  with assms show ?thesis by (simp add: js_slice_def Let_def max_def)
qed

lemma js_slice_last_ten: "js_slice (- 10) xs = drop (length xs - 10) xs"
  using js_slice_neg [of 10 xs] by simp

lemma js_slice_last_nine: "js_slice (- 9) xs = drop (length xs - 9) xs"
  using js_slice_neg [of 9 xs] by simp

lemma js_slice_snoc: "js_slice (- 10) (xs @ [x]) = js_slice (- 9) xs @ [x]"
  by (simp add: js_slice_last_ten js_slice_last_nine Suc_diff_le)

text \<open>
  Claim C1. Whenever the /api/chat request interceptor returns, the \<^verbatim>\<open>history\<close> it
  attaches is a list of at most ten entries (ten, or as many as the accumulated history
  list holds when that is fewer), and it is a suffix of the accumulated history list as
  the call leaves it: the entries at its end, in their original order. The same holds of
  the expression \<^verbatim>\<open>h.slice(-10)\<close> for every list \<open>h\<close>, which is the window the second
  ChatBot_v1 component computes and does not send.
\<close>

theorem history_window_is_bounded_suffix:
  assumes "message_text (body req) = Inr t"
  shows "(\<exists>w. fst (requestInterceptor st req)
                = Inr (req\<lparr>body := JObj [(''content'', t), (''history'', JArr w)]\<rparr>)
              \<and> length w \<le> 10
              \<and> length w = min 10 (length (chatHistor_LLM (snd (requestInterceptor st req))))
              \<and> suffix w (chatHistor_LLM (snd (requestInterceptor st req))))
         \<and> length (js_slice (- 10) h) = min 10 (length h)
         \<and> suffix (js_slice (- 10) h) h"
proof -
  let ?H = "chatHistor_LLM (snd (requestInterceptor st req))"
  have "fst (requestInterceptor st req)
          = Inr (req\<lparr>body := JObj [(''content'', t), (''history'', JArr (js_slice (- 10) ?H))]\<rparr>)"
    using assms by (simp add: requestInterceptor_def Let_def)
  moreover have "length (js_slice (- 10) ?H) = min 10 (length ?H)"
    by (simp add: js_slice_last_ten)
  moreover have "suffix (js_slice (- 10) ?H) ?H"
    by (simp add: js_slice_last_ten suffix_drop)
  ultimately have "\<exists>w. fst (requestInterceptor st req)
                = Inr (req\<lparr>body := JObj [(''content'', t), (''history'', JArr w)]\<rparr>)
              \<and> length w \<le> 10 \<and> length w = min 10 (length ?H) \<and> suffix w ?H"
    by (intro exI [of _ "js_slice (- 10) ?H"]) simp
  moreover have "length (js_slice (- 10) h) = min 10 (length h)"
    by (simp add: js_slice_last_ten)
  moreover have "suffix (js_slice (- 10) h) h"
    by (simp add: js_slice_last_ten suffix_drop)
  ultimately show ?thesis by blast
qed

text \<open>After five questions and five answers, the sixth question: the list then holds
  eleven entries and the window ten.\<close>

theorem history_window_is_bounded_suffix_witness:
  "message_text (body \<lparr>body = JObj [(''messages'', JArr [JObj [(''text'', JStr ''q6'')]])]\<rparr>)
     = Inr (JStr ''q6'')
   \<and> length (chatHistor_LLM (snd (requestInterceptor
        \<lparr>currentChatDetail = [],
         chatHistor_LLM = map (\<lambda>(r, c). JObj [(''role'', JStr r), (''content'', JStr c)])
           [(''user'', ''q1''), (''assistant'', ''a1''), (''user'', ''q2''), (''assistant'', ''a2''),
            (''user'', ''q3''), (''assistant'', ''a3''), (''user'', ''q4''), (''assistant'', ''a4''),
            (''user'', ''q5''), (''assistant'', ''a5'')],
         newRecord = []\<rparr>
        \<lparr>body = JObj [(''messages'', JArr [JObj [(''text'', JStr ''q6'')]])]\<rparr>))) = 11
   \<and> (\<exists>w. fst (requestInterceptor
        \<lparr>currentChatDetail = [],
         chatHistor_LLM = map (\<lambda>(r, c). JObj [(''role'', JStr r), (''content'', JStr c)])
           [(''user'', ''q1''), (''assistant'', ''a1''), (''user'', ''q2''), (''assistant'', ''a2''),
            (''user'', ''q3''), (''assistant'', ''a3''), (''user'', ''q4''), (''assistant'', ''a4''),
            (''user'', ''q5''), (''assistant'', ''a5'')],
         newRecord = []\<rparr>
        \<lparr>body = JObj [(''messages'', JArr [JObj [(''text'', JStr ''q6'')]])]\<rparr>)
          = Inr \<lparr>body = JObj [(''content'', JStr ''q6''), (''history'', JArr w)]\<rparr>
        \<and> length w = 10)"
proof -
  let ?st = "\<lparr>currentChatDetail = [],
         chatHistor_LLM = map (\<lambda>(r, c). JObj [(''role'', JStr r), (''content'', JStr c)])
           [(''user'', ''q1''), (''assistant'', ''a1''), (''user'', ''q2''), (''assistant'', ''a2''),
            (''user'', ''q3''), (''assistant'', ''a3''), (''user'', ''q4''), (''assistant'', ''a4''),
            (''user'', ''q5''), (''assistant'', ''a5'')],
         newRecord = []\<rparr>"
  let ?req = "\<lparr>body = JObj [(''messages'', JArr [JObj [(''text'', JStr ''q6'')]])]\<rparr>"
  have m: "message_text (body ?req) = Inr (JStr ''q6'')"
    by (simp add: message_text_def)
  have n: "length (chatHistor_LLM (snd (requestInterceptor ?st ?req))) = 11"
    using m by (simp add: requestInterceptor_def Let_def)
  from history_window_is_bounded_suffix [OF m, of ?st] obtain w where
    "fst (requestInterceptor ?st ?req)
       = Inr (?req\<lparr>body := JObj [(''content'', JStr ''q6''), (''history'', JArr w)]\<rparr>)"
    and "length w = min 10 (length (chatHistor_LLM (snd (requestInterceptor ?st ?req))))"
    by blast
  with n have "fst (requestInterceptor ?st ?req)
       = Inr \<lparr>body = JObj [(''content'', JStr ''q6''), (''history'', JArr w)]\<rparr> \<and> length w = 10"
    by simp
  then have "\<exists>w. fst (requestInterceptor ?st ?req)
       = Inr \<lparr>body = JObj [(''content'', JStr ''q6''), (''history'', JArr w)]\<rparr> \<and> length w = 10"
    by (rule exI)
  with m n show ?thesis by (intro conjI)
qed

subsection \<open>The request bodies\<close>

lemma question_body:
  "JSON_stringify 0 (JObj [(''question'', JStr q)])
     = Some (''{'' @ [CHR 0x22] @ ''question'' @ [CHR 0x22] @ '':'' @ QuoteJSONString q @ ''}'')"
  by (simp add: JSON_stringify_def QuoteJSONString_def quote_char_def)

lemma fetch_once:
  "filter is_Fetch (handleSubmit st outcome) =
     [Fetch ''http://localhost:8000/timesheetanalyze''
        \<lparr>http_method = ''POST'', headers = [(''Content-Type'', ''application/json'')],
         init_body = JSON_stringify 0 (JObj [(''question'', JStr (question st))])\<rparr>]"
  by (simp add: handleSubmit_def catch_block_def finally_block_def split: promise.splits)

text \<open>A string of code units that need no escape is quoted as it is, between double
  quotes.\<close>

lemma quote_char_plain:
  assumes "32 \<le> (of_char c :: nat)" and "c \<noteq> CHR 0x22" and "c \<noteq> CHR 0x5C"
  shows "quote_char c = [c]"
proof -
  have "c \<noteq> CHR 0x08" "c \<noteq> CHR 0x09" "c \<noteq> CHR 0x0A" "c \<noteq> CHR 0x0C" "c \<noteq> CHR 0x0D"
    using assms(1) by fastforce+
  with assms show ?thesis by (simp add: quote_char_def)
qed

lemma QuoteJSONString_plain:
  assumes "\<forall>c \<in> set q. 32 \<le> (of_char c :: nat) \<and> c \<noteq> CHR 0x22 \<and> c \<noteq> CHR 0x5C"
  shows "QuoteJSONString q = [CHR 0x22] @ q @ [CHR 0x22]"
proof -
  have "concat (map quote_char q) = q"
    using assms by (induction q) (simp_all add: quote_char_plain)
  then show ?thesis by (simp add: QuoteJSONString_def)
qed

text \<open>
  Claim C6. The submit handler of the form issues exactly one network call, whatever the
  network then does: a POST whose body is the JSON text \<^verbatim>\<open>{"question":...}\<close> with the
  question as a JSON string literal. For a widget message whose text is the string \<open>q\<close>,
  the request interceptors of both ChatBot_v1 components return the request with the body
  \<^verbatim>\<open>{question: q}\<close>, and the one of the /api/chat component returns it with \<open>q\<close> as
  the \<^verbatim>\<open>content\<close> field, next to the history window. An interceptor only rewrites the
  one request the widget is sending.
\<close>

theorem question_in_request_body:
  assumes "message_text (body req) = Inr (JStr q)"
  shows "filter is_Fetch (handleSubmit st outcome) =
           [Fetch ''http://localhost:8000/timesheetanalyze''
              \<lparr>http_method = ''POST'', headers = [(''Content-Type'', ''application/json'')],
               init_body = Some (''{'' @ [CHR 0x22] @ ''question'' @ [CHR 0x22] @ '':''
                                 @ QuoteJSONString (question st) @ ''}'')\<rparr>]
         \<and> fst (requestInterceptor_v1 cs req) = Inr (req\<lparr>body := JObj [(''question'', JStr q)]\<rparr>)
         \<and> fst (requestInterceptor_v1h cs req) = Inr (req\<lparr>body := JObj [(''question'', JStr q)]\<rparr>)
         \<and> fst (requestInterceptor cs req) =
             Inr (req\<lparr>body := JObj [(''content'', JStr q),
                    (''history'', JArr (js_slice (- 10)
                       (chatHistor_LLM cs @ [JObj [(''role'', JStr ''user''), (''content'', JStr q)]])))]\<rparr>)"
  using assms
  by (simp add: fetch_once question_body requestInterceptor_v1_def requestInterceptor_v1h_def
      requestInterceptor_def Let_def)

theorem question_in_request_body_witness:
  "message_text (JObj [(''messages'', JArr [JObj [(''role'', JStr ''user''), (''text'', JStr ''hours?'')]])])
     = Inr (JStr ''hours?'')
   \<and> filter is_Fetch (handleSubmit (init_app\<lparr>question := ''hours?''\<rparr>) Pending) =
       [Fetch ''http://localhost:8000/timesheetanalyze''
          \<lparr>http_method = ''POST'', headers = [(''Content-Type'', ''application/json'')],
           init_body = Some (''{'' @ [CHR 0x22] @ ''question'' @ [CHR 0x22] @ '':''
                             @ [CHR 0x22] @ ''hours?'' @ [CHR 0x22] @ ''}'')\<rparr>]
   \<and> fst (requestInterceptor_v1 init_chat
        \<lparr>body = JObj [(''messages'', JArr [JObj [(''role'', JStr ''user''), (''text'', JStr ''hours?'')]])]\<rparr>)
       = Inr \<lparr>body = JObj [(''question'', JStr ''hours?'')]\<rparr>
   \<and> fst (requestInterceptor init_chat
        \<lparr>body = JObj [(''messages'', JArr [JObj [(''role'', JStr ''user''), (''text'', JStr ''hours?'')]])]\<rparr>)
       = Inr \<lparr>body = JObj [(''content'', JStr ''hours?''),
               (''history'', JArr [JObj [(''role'', JStr ''user''), (''content'', JStr ''hours?'')]])]\<rparr>"
proof -
  have m: "message_text (body \<lparr>body = JObj [(''messages'',
             JArr [JObj [(''role'', JStr ''user''), (''text'', JStr ''hours?'')]])]\<rparr>)
           = Inr (JStr ''hours?'')"
    by (simp add: message_text_def)
  have s: "js_slice (- 10) [JObj [(''role'', JStr ''user''), (''content'', JStr ''hours?'')]]
           = [JObj [(''role'', JStr ''user''), (''content'', JStr ''hours?'')]]"
    by (simp add: js_slice_def)
  have k: "QuoteJSONString ''hours?'' = [CHR 0x22] @ ''hours?'' @ [CHR 0x22]"
    by (simp add: QuoteJSONString_def quote_char_def)
  show ?thesis
    using m s k question_in_request_body [OF m, of "init_app\<lparr>question := ''hours?''\<rparr>" Pending init_chat]
    by (simp add: init_chat_def init_app_def)
qed

text \<open>
  Claim C7, as the code has it. The /api/chat interceptor pushes the message being sent
  onto the history list before it takes the window. So the attached history ends with
  that message itself, as \<^verbatim>\<open>{role: "user", content: text}\<close>; before it come the last
  nine entries of the history as it was before the call (all of them when there are fewer),
  in order. The window holds at most ten entries, at most nine of them prior turns.
\<close>

theorem history_is_prior_window_and_current_message:
  assumes "message_text (body req) = Inr t"
  shows "fst (requestInterceptor st req) =
           Inr (req\<lparr>body := JObj [(''content'', t),
                  (''history'', JArr (js_slice (- 9) (chatHistor_LLM st)
                                      @ [JObj [(''role'', JStr ''user''), (''content'', t)]]))]\<rparr>)
         \<and> length (js_slice (- 9) (chatHistor_LLM st)) = min 9 (length (chatHistor_LLM st))
         \<and> suffix (js_slice (- 9) (chatHistor_LLM st)) (chatHistor_LLM st)"
  using assms
  by (simp add: requestInterceptor_def Let_def js_slice_snoc js_slice_last_nine suffix_drop)

theorem history_is_prior_window_and_current_message_witness:
  "message_text (JObj [(''messages'', JArr [JObj [(''role'', JStr ''user''), (''text'', JStr ''and May?'')]])])
     = Inr (JStr ''and May?'')
   \<and> fst (requestInterceptor
        \<lparr>currentChatDetail = [], 
         chatHistor_LLM = [JObj [(''role'', JStr ''user''), (''content'', JStr ''hours?'')],
                           JObj [(''role'', JStr ''assistant''), (''content'', JStr ''40'')]],
         newRecord = []\<rparr>
        \<lparr>body = JObj [(''messages'', JArr [JObj [(''role'', JStr ''user''), (''text'', JStr ''and May?'')]])]\<rparr>)
       = Inr \<lparr>body = JObj [(''content'', JStr ''and May?''),
               (''history'', JArr [JObj [(''role'', JStr ''user''), (''content'', JStr ''hours?'')],
                                   JObj [(''role'', JStr ''assistant''), (''content'', JStr ''40'')],
                                   JObj [(''role'', JStr ''user''), (''content'', JStr ''and May?'')]])]\<rparr>"
proof -
  have m: "message_text (body \<lparr>body = JObj [(''messages'',
             JArr [JObj [(''role'', JStr ''user''), (''text'', JStr ''and May?'')]])]\<rparr>)
           = Inr (JStr ''and May?'')"
    by (simp add: message_text_def)
  have s: "js_slice (- 9) [JObj [(''role'', JStr ''user''), (''content'', JStr ''hours?'')],
                           JObj [(''role'', JStr ''assistant''), (''content'', JStr ''40'')]]
           = [JObj [(''role'', JStr ''user''), (''content'', JStr ''hours?'')],
              JObj [(''role'', JStr ''assistant''), (''content'', JStr ''40'')]]"
    by (simp add: js_slice_def)
  show ?thesis
    using m s history_is_prior_window_and_current_message [OF m,
        of "\<lparr>currentChatDetail = [], 
         chatHistor_LLM = [JObj [(''role'', JStr ''user''), (''content'', JStr ''hours?'')],
                           JObj [(''role'', JStr ''assistant''), (''content'', JStr ''40'')]],
         newRecord = []\<rparr>"]
    by simp
qed

text \<open>
  The claim as written fails on the first message of a session: no turn has been
  exchanged yet, and the attached history is not empty; it holds the message being sent.
\<close>

theorem history_holds_current_message_counterexample:
  "fst (requestInterceptor init_chat
     \<lparr>body = JObj [(''messages'', JArr [JObj [(''role'', JStr ''user''), (''text'', JStr ''hi'')]])]\<rparr>)
     = Inr \<lparr>body = JObj [(''content'', JStr ''hi''),
             (''history'', JArr [JObj [(''role'', JStr ''user''), (''content'', JStr ''hi'')]])]\<rparr>
   \<and> \<not> suffix [JObj [(''role'', JStr ''user''), (''content'', JStr ''hi'')]] (chatHistor_LLM init_chat)"
  by (simp add: requestInterceptor_def message_text_def init_chat_def js_slice_def Let_def)


subsection \<open>The module arrays only grow\<close>

lemma requestInterceptor_appends: "appended_only st (snd (requestInterceptor st r))"
  by (simp add: appended_only_def requestInterceptor_def Let_def split: sum.splits)

lemma responseInterceptor_appends: "appended_only st (snd (responseInterceptor now st v))"
  by (simp add: appended_only_def responseInterceptor_def Let_def split: sum.splits)

lemma requestInterceptor_v1_appends: "appended_only st (snd (requestInterceptor_v1 st r))"
  by (simp add: appended_only_def requestInterceptor_v1_def Let_def split: sum.splits)

lemma responseInterceptor_v1_appends: "appended_only st (snd (responseInterceptor_v1 now st v))"
  by (simp add: appended_only_def responseInterceptor_v1_def Let_def split: sum.splits)

lemma requestInterceptor_v1h_appends: "appended_only st (snd (requestInterceptor_v1h st r))"
  by (simp add: appended_only_def requestInterceptor_v1h_def Let_def split: sum.splits)

lemma responseInterceptor_v1h_appends: "appended_only st (snd (responseInterceptor_v1h now st v))"
  by (simp add: appended_only_def responseInterceptor_v1h_def Let_def split: sum.splits)

lemma appended_only_refl: "appended_only st st"
  by (simp add: appended_only_def)

lemma appended_only_trans:
  assumes "appended_only a b" and "appended_only b c"
  shows "appended_only a c"
  using assms unfolding appended_only_def by (blast intro: prefix_order.trans)

text \<open>What holds of every single call holds of a whole session.\<close>

lemma session_appends:
  assumes "\<And>s c. appended_only s (step s c)"
  shows "appended_only st (foldl step st cs)"
proof (induction cs rule: rev_induct)
  case Nil
  show ?case by (simp add: appended_only_refl)
next
  case (snoc c cs)
  have "appended_only (foldl step st cs) (step (foldl step st cs) c)"
    by (rule assms)
  with snoc show ?case
    by (simp add: appended_only_trans)
qed

lemma ChatBot_call_appends: "appended_only st (ChatBot_call st c)"
  by (cases c) (simp_all add: ChatBot_call_def requestInterceptor_appends responseInterceptor_appends)

lemma ChatBot_v1_call_appends: "appended_only st (ChatBot_v1_call st c)"
  by (cases c)
    (simp_all add: ChatBot_v1_call_def requestInterceptor_v1_appends responseInterceptor_v1_appends)

lemma ChatBot_v1h_call_appends: "appended_only st (ChatBot_v1h_call st c)"
  by (cases c)
    (simp_all add: ChatBot_v1h_call_def requestInterceptor_v1h_appends responseInterceptor_v1h_appends)

text \<open>
  Claim C8. Every call of a request or response interceptor, in each of the three chat
  components and whether it returns or raises, leaves the transcript list and the history
  list with all their earlier entries, unchanged and at the same positions, possibly with
  new entries after them; and so does every sequence of such calls during a page session.
\<close>

theorem transcript_lists_append_only:
  "appended_only st (snd (requestInterceptor st r))
   \<and> appended_only st (snd (responseInterceptor now st v))
   \<and> appended_only st (snd (requestInterceptor_v1 st r))
   \<and> appended_only st (snd (responseInterceptor_v1 now st v))
   \<and> appended_only st (snd (requestInterceptor_v1h st r))
   \<and> appended_only st (snd (responseInterceptor_v1h now st v))
   \<and> appended_only st (foldl ChatBot_call st cs)
   \<and> appended_only st (foldl ChatBot_v1_call st cs)
   \<and> appended_only st (foldl ChatBot_v1h_call st cs)"
  by (intro conjI requestInterceptor_appends responseInterceptor_appends
      requestInterceptor_v1_appends responseInterceptor_v1_appends
      requestInterceptor_v1h_appends responseInterceptor_v1h_appends
      session_appends ChatBot_call_appends ChatBot_v1_call_appends ChatBot_v1h_call_appends)

theorem transcript_lists_append_only_witness:
  "chatHistor_LLM (foldl ChatBot_call init_chat
      [Request \<lparr>body = JObj [(''messages'', JArr [JObj [(''text'', JStr ''hi'')]])]\<rparr>,
       Response ''Mon'' (JObj [(''text'', JStr ''hello''), (''answer'', JStr ''hello'')])])
     = [JObj [(''role'', JStr ''user''), (''content'', JStr ''hi'')],
        JObj [(''role'', JStr ''assistant''), (''content'', JStr ''hello'')]]
   \<and> appended_only init_chat (foldl ChatBot_call init_chat
      [Request \<lparr>body = JObj [(''messages'', JArr [JObj [(''text'', JStr ''hi'')]])]\<rparr>,
       Response ''Mon'' (JObj [(''text'', JStr ''hello''), (''answer'', JStr ''hello'')])])"
proof -
  have "chatHistor_LLM (foldl ChatBot_call init_chat
      [Request \<lparr>body = JObj [(''messages'', JArr [JObj [(''text'', JStr ''hi'')]])]\<rparr>,
       Response ''Mon'' (JObj [(''text'', JStr ''hello''), (''answer'', JStr ''hello'')])])
     = [JObj [(''role'', JStr ''user''), (''content'', JStr ''hi'')],
        JObj [(''role'', JStr ''assistant''), (''content'', JStr ''hello'')]]"
    by (simp add: ChatBot_call_def requestInterceptor_def responseInterceptor_def
        message_text_def init_chat_def Let_def)
  moreover have "appended_only init_chat (foldl ChatBot_call init_chat
      [Request \<lparr>body = JObj [(''messages'', JArr [JObj [(''text'', JStr ''hi'')]])]\<rparr>,
       Response ''Mon'' (JObj [(''text'', JStr ''hello''), (''answer'', JStr ''hello'')])])"
    using transcript_lists_append_only [of init_chat _ _ _
      "[Request \<lparr>body = JObj [(''messages'', JArr [JObj [(''text'', JStr ''hi'')]])]\<rparr>,
       Response ''Mon'' (JObj [(''text'', JStr ''hello''), (''answer'', JStr ''hello'')])]"]
    by blast
  ultimately show ?thesis by (rule conjI)
qed

subsection \<open>formatResponse\<close>

text \<open>A response that is itself \<^verbatim>\<open>null\<close> or \<^verbatim>\<open>undefined\<close> has no fields to
  read: \<^verbatim>\<open>response.result\<close> raises.\<close>

lemma formatResponse_nullish:
  "formatResponse JNull = Inl TypeError" "formatResponse JUndefined = Inl TypeError"
  by (simp_all add: formatResponse_def)

text \<open>
  Claim C2. For every response whose \<^verbatim>\<open>result\<close> field is missing, that is, reading
  \<^verbatim>\<open>response.result\<close> gives \<^verbatim>\<open>undefined\<close>, formatResponse returns the string
  "No result received from the server.", and the response interceptor hands exactly that
  string to the widget as \<^verbatim>\<open>html\<close>.
\<close>

theorem missing_result_gives_fallback:
  assumes "get_prop response ''result'' = Inr JUndefined"
  shows "formatResponse response = Inr ''No result received from the server.''
         \<and> fst (responseInterceptor_v1 now st response)
             = Inr (JObj [(''html'', JStr ''No result received from the server.'')])"
proof -
  have f: "formatResponse response = Inr ''No result received from the server.''"
    using assms by (simp add: formatResponse_def)
  have "\<exists>a. get_prop response ''answer'' = Inr a"
    using assms by (cases response) simp_all
  with f show ?thesis
    by (auto simp add: responseInterceptor_v1_def Let_def)
qed

theorem missing_result_gives_fallback_witness:
  "get_prop (JObj [(''text'', JStr ''hello'')]) ''result'' = Inr JUndefined
   \<and> formatResponse (JObj [(''text'', JStr ''hello'')]) = Inr ''No result received from the server.''
   \<and> fst (responseInterceptor_v1 ''Mon'' init_chat (JObj [(''text'', JStr ''hello'')]))
       = Inr (JObj [(''html'', JStr ''No result received from the server.'')])"
proof -
  have g: "get_prop (JObj [(''text'', JStr ''hello'')]) ''result'' = Inr JUndefined"
    by simp
  from g missing_result_gives_fallback [OF g, of "''Mon''" init_chat] show ?thesis
    by (simp only: simp_thms)
qed

text \<open>
  Claim C9. When the \<^verbatim>\<open>result\<close> field is present and holds \<^verbatim>\<open>null\<close>,
  \<^verbatim>\<open>false\<close>, 0 or the empty string, formatResponse returns the same fallback string:
  the guard tests that the field is falsy, not that it is absent.
\<close>

theorem falsy_result_gives_fallback:
  assumes "result = JNull \<or> result = JBool False \<or> result = JNum 0 \<or> result = JStr []"
    and "map_of kvs ''result'' = Some result"
  shows "formatResponse (JObj kvs) = Inr ''No result received from the server.''"
  using assms by (auto simp add: formatResponse_def)

theorem falsy_result_gives_fallback_witness:
  "formatResponse (JObj [(''result'', JNull)]) = Inr ''No result received from the server.''
   \<and> formatResponse (JObj [(''result'', JBool False)]) = Inr ''No result received from the server.''
   \<and> formatResponse (JObj [(''result'', JNum 0)]) = Inr ''No result received from the server.''
   \<and> formatResponse (JObj [(''result'', JStr [])]) = Inr ''No result received from the server.''"
  using falsy_result_gives_fallback [of JNull "[(''result'', JNull)]"]
    falsy_result_gives_fallback [of "JBool False" "[(''result'', JBool False)]"]
    falsy_result_gives_fallback [of "JNum 0" "[(''result'', JNum 0)]"]
    falsy_result_gives_fallback [of "JStr []" "[(''result'', JStr [])]"]
  by simp


text \<open>
  Claim C3, as the code has it. For a successful response whose body is
  \<^verbatim>\<open>{ "result": { "raw": X } }\<close> with a string \<open>X\<close>, the form shows the
  \<^verbatim>\<open>result\<close> object pretty-printed with two spaces of indentation: an opening brace,
  a line break, two spaces, \<^verbatim>\<open>"raw": \<close> and \<open>X\<close> as a JSON string literal, a line
  break and the closing brace. formatResponse returns the fragment \<^verbatim>\<open><div>X</div>\<close>
  inside the layout of its template literal: a line break and twelve spaces before it,
  a line break and eight spaces after it; the response interceptor passes that string
  on as \<^verbatim>\<open>html\<close>.
\<close>

theorem raw_result_rendering:
  assumes "ok r" and "json r = Fulfilled (JObj [(''result'', JObj [(''raw'', JStr X)])])"
  shows "result_area (App_view (run st (handleSubmit st (Fulfilled r))))
           = ResultBlock (Some (''{'' @ [CHR 0x0A] @ ''  '' @ [CHR 0x22] @ ''raw'' @ [CHR 0x22] @ '': ''
                                @ QuoteJSONString X @ [CHR 0x0A] @ ''}''))
         \<and> formatResponse (JObj [(''result'', JObj [(''raw'', JStr X)])])
             = Inr ([CHR 0x0A] @ ''            <div>'' @ X @ ''</div>'' @ [CHR 0x0A] @ ''        '')
         \<and> fst (responseInterceptor_v1 now cs (JObj [(''result'', JObj [(''raw'', JStr X)])]))
             = Inr (JObj [(''html'',
                 JStr ([CHR 0x0A] @ ''            <div>'' @ X @ ''</div>'' @ [CHR 0x0A] @ ''        ''))])"
proof -
  have q: "QuoteJSONString ''raw'' = [CHR 0x22] @ ''raw'' @ [CHR 0x22]"
    by (simp add: QuoteJSONString_def quote_char_def)
  have form: "result_area (App_view (run st (handleSubmit st (Fulfilled r))))
           = ResultBlock (Some (''{'' @ [CHR 0x0A] @ ''  '' @ [CHR 0x22] @ ''raw'' @ [CHR 0x22] @ '': ''
                                @ QuoteJSONString X @ [CHR 0x0A] @ ''}''))"
    using assms q
    by (simp add: handleSubmit_def run_def finally_block_def App_view_def JSON_stringify_def
        numeral_2_eq_2)
  have chat: "formatResponse (JObj [(''result'', JObj [(''raw'', JStr X)])])
             = Inr ([CHR 0x0A] @ ''            <div>'' @ X @ ''</div>'' @ [CHR 0x0A] @ ''        '')"
    by (simp add: formatResponse_def)
  have "fst (responseInterceptor_v1 now cs (JObj [(''result'', JObj [(''raw'', JStr X)])]))
             = Inr (JObj [(''html'',
                 JStr ([CHR 0x0A] @ ''            <div>'' @ X @ ''</div>'' @ [CHR 0x0A] @ ''        ''))])"
    by (simp add: responseInterceptor_v1_def chat Let_def)
  with form chat show ?thesis by (simp only: simp_thms)
qed

theorem raw_result_rendering_witness:
  "ok \<lparr>status = 200, statusText = ''OK'',
       json = Fulfilled (JObj [(''result'', JObj [(''raw'', JStr ''X'')])])\<rparr>
   \<and> result_area (App_view (run init_app (handleSubmit init_app
        (Fulfilled \<lparr>status = 200, statusText = ''OK'',
           json = Fulfilled (JObj [(''result'', JObj [(''raw'', JStr ''X'')])])\<rparr>))))
       = ResultBlock (Some (''{'' @ [CHR 0x0A] @ ''  '' @ [CHR 0x22] @ ''raw'' @ [CHR 0x22] @ '': ''
                            @ [CHR 0x22] @ ''X'' @ [CHR 0x22] @ [CHR 0x0A] @ ''}''))
   \<and> formatResponse (JObj [(''result'', JObj [(''raw'', JStr ''X'')])])
       = Inr ([CHR 0x0A] @ ''            <div>X</div>'' @ [CHR 0x0A] @ ''        '')"
proof -
  have o: "ok \<lparr>status = 200, statusText = ''OK'',
       json = Fulfilled (JObj [(''result'', JObj [(''raw'', JStr ''X'')])])\<rparr>"
    by (simp add: ok_def)
  have j: "json \<lparr>status = 200, statusText = ''OK'',
       json = Fulfilled (JObj [(''result'', JObj [(''raw'', JStr ''X'')])])\<rparr>
       = Fulfilled (JObj [(''result'', JObj [(''raw'', JStr ''X'')])])"
    by simp
  have k: "QuoteJSONString ''X'' = [CHR 0x22] @ ''X'' @ [CHR 0x22]"
    by (simp add: QuoteJSONString_def quote_char_def)
  show ?thesis
    using o k raw_result_rendering [OF o j, of init_app "''Mon''" init_chat]
    by simp
qed

text \<open>
  The claim as written fails: what formatResponse returns for the body
  \<^verbatim>\<open>{ "result": { "raw": "X" } }\<close> is not the string \<^verbatim>\<open><div>X</div>\<close>.
\<close>

theorem formatResponse_literal_div_counterexample:
  "formatResponse (JObj [(''result'', JObj [(''raw'', JStr ''X'')])]) \<noteq> Inr ''<div>X</div>''"
  by (simp add: formatResponse_def)

subsection \<open>The submit handler\<close>

lemma nat_to_string_500: "nat_to_string 500 = ''500''"
  by code_simp

text \<open>
  Claim C4. For every response whose status is not in the range 200 to 299, the submit
  handler leaves as error the string "Error: ", the status code in decimal, a space and
  the status text, and the component shows it; for the status 500 the string is
  "Error: 500 " followed by the status text.
\<close>

theorem http_error_is_surfaced:
  assumes "\<not> ok r"
  shows "error (run st (handleSubmit st (Fulfilled r)))
           = Some (''Error: '' @ nat_to_string (status r) @ '' '' @ statusText r)
         \<and> error_paragraph (App_view (run st (handleSubmit st (Fulfilled r))))
           = Some (''Error: '' @ nat_to_string (status r) @ '' '' @ statusText r)
         \<and> (status r = 500 \<longrightarrow>
              error (run st (handleSubmit st (Fulfilled r))) = Some (''Error: 500 '' @ statusText r))"
proof -
  have e: "error (run st (handleSubmit st (Fulfilled r)))
           = Some (''Error: '' @ nat_to_string (status r) @ '' '' @ statusText r)"
    using assms by (simp add: handleSubmit_def run_def catch_block_def finally_block_def)
  then have p: "error_paragraph (App_view (run st (handleSubmit st (Fulfilled r))))
           = Some (''Error: '' @ nat_to_string (status r) @ '' '' @ statusText r)"
    by (simp add: App_view_def)
  from e p nat_to_string_500 show ?thesis by simp
qed

theorem http_error_is_surfaced_witness:
  "\<not> ok \<lparr>status = 500, statusText = ''Internal Server Error'', json = Pending\<rparr>
   \<and> error (run init_app (handleSubmit init_app
        (Fulfilled \<lparr>status = 500, statusText = ''Internal Server Error'', json = Pending\<rparr>)))
       = Some ''Error: 500 Internal Server Error''"
proof -
  have n: "\<not> ok \<lparr>status = 500, statusText = ''Internal Server Error'', json = Pending\<rparr>"
    by (simp add: ok_def)
  from n http_error_is_surfaced [OF n, of init_app] show ?thesis
    by (simp add: nat_to_string_500)
qed

text \<open>When every awaited promise settles, the handler performs six effects: the four
  up to the network call, one state update for the outcome, and the one of
  \<^verbatim>\<open>finally\<close>.\<close>

lemma handleSubmit_settled:
  assumes "settled outcome"
  shows "\<exists>u. handleSubmit st outcome =
           [PreventDefault, SetLoading True, SetError None,
            Fetch ''http://localhost:8000/timesheetanalyze''
              \<lparr>http_method = ''POST'', headers = [(''Content-Type'', ''application/json'')],
               init_body = JSON_stringify 0 (JObj [(''question'', JStr (question st))])\<rparr>,
            u, SetLoading False] \<and> \<not> is_SetLoading u"
  using assms
  by (auto simp add: settled_def handleSubmit_def catch_block_def finally_block_def
      split: promise.splits if_splits)

text \<open>While a promise is pending the handler has not reached \<^verbatim>\<open>finally\<close>: the flag
  stays set.\<close>

lemma loading_while_pending:
  "loading (run st (handleSubmit st Pending)) = True"
  by (simp add: handleSubmit_def run_def)

text \<open>
  Claim C5. For every outcome in which the handler completes (a rejected call, a status
  that is not ok, a body that fails to parse, a parsed body), the loading flag is set by
  the handler's first state update, stays set after each effect up to the last, and is
  cleared by the last effect; the handler sets the flag exactly twice, to true and then
  to false.
\<close>

theorem loading_between_submit_and_settle:
  assumes "settled outcome"
  shows "map loading (states_after st (handleSubmit st outcome))
           = [loading st, True, True, True, True, False]
         \<and> loading (run st (handleSubmit st outcome)) = False
         \<and> filter is_SetLoading (handleSubmit st outcome) = [SetLoading True, SetLoading False]"
proof -
  from handleSubmit_settled [OF assms, of st] obtain u where
    h: "handleSubmit st outcome =
           [PreventDefault, SetLoading True, SetError None,
            Fetch ''http://localhost:8000/timesheetanalyze''
              \<lparr>http_method = ''POST'', headers = [(''Content-Type'', ''application/json'')],
               init_body = JSON_stringify 0 (JObj [(''question'', JStr (question st))])\<rparr>,
            u, SetLoading False]"
    and u: "\<not> is_SetLoading u"
    by blast
  have l: "loading (apply_effect s u) = loading s" for s
    using u by (cases u) simp_all
  show ?thesis
    unfolding h using u l by (simp add: run_def)
qed

theorem loading_between_submit_and_settle_witness:
  "settled (Rejected (ErrorObj ''Failed to fetch''))
   \<and> map loading (states_after init_app (handleSubmit init_app (Rejected (ErrorObj ''Failed to fetch''))))
       = [False, True, True, True, True, False]
   \<and> settled (Fulfilled \<lparr>status = 200, statusText = ''OK'', json = Fulfilled (JObj [])\<rparr>)
   \<and> map loading (states_after init_app (handleSubmit init_app
        (Fulfilled \<lparr>status = 200, statusText = ''OK'', json = Fulfilled (JObj [])\<rparr>)))
       = [False, True, True, True, True, False]"
proof -
  have a: "settled (Rejected (ErrorObj ''Failed to fetch''))"
    by (simp add: settled_def)
  have b: "settled (Fulfilled \<lparr>status = 200, statusText = ''OK'', json = Fulfilled (JObj [])\<rparr>)"
    by (simp add: settled_def)
  have i: "loading init_app = False"
    by (simp add: init_app_def)
  from a b i loading_between_submit_and_settle [OF a, of init_app]
    loading_between_submit_and_settle [OF b, of init_app]
  show ?thesis by simp
qed

text \<open>Until every awaited promise has settled, the handler has performed its first four
  effects and no more.\<close>

lemma handleSubmit_in_flight:
  assumes "\<not> settled outcome"
  shows "handleSubmit st outcome =
           [PreventDefault, SetLoading True, SetError None,
            Fetch ''http://localhost:8000/timesheetanalyze''
              \<lparr>http_method = ''POST'', headers = [(''Content-Type'', ''application/json'')],
               init_body = JSON_stringify 0 (JObj [(''question'', JStr (question st))])\<rparr>]"
  using assms
  by (auto simp add: settled_def handleSubmit_def split: promise.splits if_splits)

subsection \<open>Runs of events on the page\<close>

lemma handleSubmit_Pending:
  "handleSubmit st Pending =
     [PreventDefault, SetLoading True, SetError None,
      Fetch ''http://localhost:8000/timesheetanalyze''
        \<lparr>http_method = ''POST'', headers = [(''Content-Type'', ''application/json'')],
         init_body = JSON_stringify 0 (JObj [(''question'', JStr (question st))])\<rparr>]"
  by (simp add: handleSubmit_def)

lemma page_inv_init: "page_inv init_page"
  by (simp add: page_inv_def init_page_def init_app_def)

lemma page_inv_step:
  assumes "page_inv p"
  shows "page_inv (page_step p e)"
proof (cases e)
  case (Type s)
  with assms show ?thesis by (simp add: page_inv_def)
next
  case Submit
  show ?thesis
  proof (cases "submittable (App_view (component p))")
    case True
    then have "\<not> loading (component p)"
      by (simp add: submittable_def App_view_def)
    with assms have "in_flight p = []"
      by (simp add: page_inv_def)
    with True Submit show ?thesis
      by (simp add: page_inv_def handleSubmit_Pending run_def)
  next
    case False
    with Submit assms show ?thesis by simp
  qed
next
  case (Settle i outcome)
  show ?thesis
  proof (cases "i < length (in_flight p) \<and> settled outcome")
    case True
    with assms obtain c where c: "in_flight p = [c]" and i: "i = 0"
      by (cases "in_flight p") (auto simp add: page_inv_def)
    from True have "settled outcome" by simp
    from handleSubmit_settled [OF this, of c] obtain u where
      h: "handleSubmit c outcome =
           [PreventDefault, SetLoading True, SetError None,
            Fetch ''http://localhost:8000/timesheetanalyze''
              \<lparr>http_method = ''POST'', headers = [(''Content-Type'', ''application/json'')],
               init_body = JSON_stringify 0 (JObj [(''question'', JStr (question c))])\<rparr>,
            u, SetLoading False]"
      by blast
    from True Settle c i show ?thesis
      by (simp add: page_inv_def handleSubmit_Pending h run_def)
  next
    case False
    with Settle assms show ?thesis by auto
  qed
qed

lemma page_inv_run: "page_inv (foldl page_step init_page evs)"
  by (induction evs rule: rev_induct) (simp_all add: page_inv_init page_inv_step)

lemma no_submit_in_flight:
  assumes "page_inv p" and "in_flight p \<noteq> []"
  shows "page_step p Submit = p"
  using assms by (simp add: page_inv_def submittable_def App_view_def)

text \<open>
  Claim C10. In every rendered state the \<^verbatim>\<open>disabled\<close> attribute of the submit button
  is the loading flag. After every sequence of events on the page (edits of the input,
  attempts to submit, settling of the network), the flag is set exactly when a run of the
  handler is waiting for the network, at most one run is waiting, and while one is, an
  attempt to submit changes nothing: no second run starts and no second request is sent.
  Within a run that has not settled, the button is disabled in every state from the
  handler's first state update on.
\<close>

theorem submit_button_disabled_while_loading:
  "button_disabled (App_view st) = loading st
   \<and> loading (component (foldl page_step init_page evs))
       = (in_flight (foldl page_step init_page evs) \<noteq> [])
   \<and> length (in_flight (foldl page_step init_page evs)) \<le> 1
   \<and> (in_flight (foldl page_step init_page evs) \<noteq> [] \<longrightarrow>
        page_step (foldl page_step init_page evs) Submit = foldl page_step init_page evs)
   \<and> (\<not> settled outcome \<longrightarrow>
        map (\<lambda>s. button_disabled (App_view s)) (states_after st (handleSubmit st outcome))
          = [loading st, True, True, True])"
proof -
  have "button_disabled (App_view st) = loading st"
    by (simp add: App_view_def)
  moreover have "page_inv (foldl page_step init_page evs)"
    by (rule page_inv_run)
  moreover have "map (\<lambda>s. button_disabled (App_view s)) (states_after st (handleSubmit st outcome))
          = [loading st, True, True, True]" if "\<not> settled outcome"
    by (simp add: App_view_def handleSubmit_in_flight [OF that])
  ultimately show ?thesis
    using no_submit_in_flight [of "foldl page_step init_page evs"]
    by (simp add: page_inv_def)
qed

text \<open>The user types a question and submits it, then tries to submit again before the
  network has settled: one request has been sent, and one only.\<close>

theorem submit_button_disabled_while_loading_witness:
  "in_flight (foldl page_step init_page [Type ''hours?'', Submit]) \<noteq> []
   \<and> foldl page_step init_page [Type ''hours?'', Submit, Submit]
       = foldl page_step init_page [Type ''hours?'', Submit]
   \<and> length (filter is_Fetch (performed (foldl page_step init_page [Type ''hours?'', Submit, Submit]))) = 1
   \<and> button_disabled (App_view (component (foldl page_step init_page [Type ''hours?'', Submit])))"
proof -
  have n: "in_flight (foldl page_step init_page [Type ''hours?'', Submit]) \<noteq> []"
    by (simp add: init_page_def init_app_def submittable_def App_view_def Let_def)
  have f: "length (filter is_Fetch (performed (foldl page_step init_page [Type ''hours?'', Submit]))) = 1"
    by (simp add: init_page_def init_app_def submittable_def App_view_def handleSubmit_Pending
        Let_def)
  have t: "foldl page_step init_page [Type ''hours?'', Submit, Submit]
          = page_step (foldl page_step init_page [Type ''hours?'', Submit]) Submit"
    by simp
  note c = submit_button_disabled_while_loading
    [of "component (foldl page_step init_page [Type ''hours?'', Submit])" "[Type ''hours?'', Submit]"]
  from c n have s: "page_step (foldl page_step init_page [Type ''hours?'', Submit]) Submit
          = foldl page_step init_page [Type ''hours?'', Submit]"
    by blast
  from c n have d: "button_disabled (App_view (component (foldl page_step init_page [Type ''hours?'', Submit])))"
    by blast
  from n f d show ?thesis
    unfolding t s by (intro conjI) simp_all
qed

end
